theory Spec2Isabelle
  imports Complex_Main
begin

section \<open>The FM radio application: preset store and tuner session\<close>

text \<open>
  The theory embeds the two models of the application, \<^verbatim>\<open>js/models/stations.js\<close> (the
  preset store) and \<^verbatim>\<open>js/models/radio.js\<close> (the tuner session), together with the parts
  of \<^verbatim>\<open>js/views/main.js\<close> and \<^verbatim>\<open>js/views/popup.js\<close> that they call or that call them.

  JavaScript numbers are modelled as exact reals: \<open>NaN\<close>, the infinities and the
  rounding error of IEEE doubles are outside the model. Module-level variables become
  fields of a state record that every function takes and returns.
\<close>

subsection \<open>Errors\<close>

text \<open>Reading a property of \<^verbatim>\<open>undefined\<close> throws a \<^verbatim>\<open>TypeError\<close>.\<close>

datatype js_error = TypeError

subsection \<open>models/stations: data\<close>

record station =
  name :: string
  frequency :: real

text \<open>
  Modelled from the spec: the storage module \<^verbatim>\<open>core/storage/idb\<close> is not part of the
  sources. It is an opaque key/value store; \<^verbatim>\<open>idb.add(key, value)\<close> binds the key to the
  value. The JSON text of the station list is kept as the list it encodes.
\<close>

datatype idb_value = JsonStations "station list" | Number real

record stations_model =
  stationList :: "station list"
  lastFrequency :: real
  idb :: "string \<rightharpoonup> idb_value"

definition idb_add :: "string \<Rightarrow> idb_value \<Rightarrow> stations_model \<Rightarrow> stations_model" where
  "idb_add k v st = st\<lparr>idb := (idb st)(k \<mapsto> v)\<rparr>"

text \<open>The module's initial state: no stations, last frequency 0, nothing read or written.\<close>

definition init_stations :: stations_model where
  "init_stations = \<lparr>stationList = [], lastFrequency = 0, idb = Map.empty\<rparr>"

subsection \<open>models/stations: operations\<close>

definition compare :: "station \<Rightarrow> station \<Rightarrow> real" where
  "compare a b = frequency a - frequency b"

text \<open>
  \<^verbatim>\<open>Array.prototype.sort(compare)\<close>: the language fixes the result (a stable ordering by the
  comparator), not the algorithm. The model is a stable insertion sort that consults
  the comparator only.
\<close>

fun sort_insert :: "('a \<Rightarrow> 'a \<Rightarrow> real) \<Rightarrow> 'a \<Rightarrow> 'a list \<Rightarrow> 'a list" where
  "sort_insert cmp x [] = [x]"
| "sort_insert cmp x (y # ys) =
     (if cmp x y < 0 then x # y # ys else y # sort_insert cmp x ys)"

fun sort_into :: "('a \<Rightarrow> 'a \<Rightarrow> real) \<Rightarrow> 'a list \<Rightarrow> 'a list \<Rightarrow> 'a list" where
  "sort_into cmp acc [] = acc"
| "sort_into cmp acc (x # xs) = sort_into cmp (sort_insert cmp x acc) xs"

definition array_sort :: "('a \<Rightarrow> 'a \<Rightarrow> real) \<Rightarrow> 'a list \<Rightarrow> 'a list" where
  "array_sort cmp xs = sort_into cmp [] xs"

definition saveToDatabase :: "stations_model \<Rightarrow> stations_model" where
  "saveToDatabase st =
     (let st1 = idb_add ''stations'' (JsonStations (stationList st)) st
      in idb_add ''lastFrequency'' (Number (lastFrequency st1)) st1)"

definition setLastFrequency :: "real \<Rightarrow> stations_model \<Rightarrow> stations_model" where
  "setLastFrequency freq st = saveToDatabase (st\<lparr>lastFrequency := freq\<rparr>)"

definition getLastFrequency :: "stations_model \<Rightarrow> real" where
  "getLastFrequency st = lastFrequency st"

definition getStationList :: "stations_model \<Rightarrow> station list" where
  "getStationList st = stationList st"

fun getStationName_loop :: "station list \<Rightarrow> real \<Rightarrow> string" where
  "getStationName_loop [] freq = ''UNNAMED''"
| "getStationName_loop (s # ss) freq =
     (if frequency s = freq then name s else getStationName_loop ss freq)"

definition getStationName :: "stations_model \<Rightarrow> real \<Rightarrow> string" where
  "getStationName st freq = getStationName_loop (stationList st) freq"

text \<open>
  The loop of \<^verbatim>\<open>save\<close>: it stops at the first station with the frequency, renames it when
  \<^verbatim>\<open>overwrite === true\<close>, and reports \<^verbatim>\<open>exists\<close>. The argument \<open>overwrite\<close> is optional in
  the source (the scan callback omits it): \<open>None\<close> stands for \<^verbatim>\<open>undefined\<close>.
\<close>

fun save_loop :: "string \<Rightarrow> real \<Rightarrow> bool option \<Rightarrow> station list \<Rightarrow> station list \<times> bool" where
  "save_loop nm freq ow [] = ([], False)"
| "save_loop nm freq ow (s # ss) =
     (if frequency s = freq
      then ((if ow = Some True then s\<lparr>name := nm\<rparr> else s) # ss, True)
      else (case save_loop nm freq ow ss of (ss', ex) \<Rightarrow> (s # ss', ex)))"

definition save :: "string \<Rightarrow> real \<Rightarrow> bool option \<Rightarrow> stations_model \<Rightarrow> stations_model" where
  "save nm freq ow st =
     (case save_loop nm freq ow (stationList st) of
        (sl, exists) \<Rightarrow>
          saveToDatabase
            (if \<not> exists
             then st\<lparr>stationList := array_sort compare (sl @ [\<lparr>name = nm, frequency = freq\<rparr>])\<rparr>
             else st\<lparr>stationList := sl\<rparr>))"

fun remove_loop :: "real \<Rightarrow> station list \<Rightarrow> station list" where
  "remove_loop freq [] = []"
| "remove_loop freq (s # ss) = (if frequency s = freq then ss else s # remove_loop freq ss)"

definition remove_station :: "real \<Rightarrow> stations_model \<Rightarrow> stations_model" where
  "remove_station freq st = saveToDatabase (st\<lparr>stationList := remove_loop freq (stationList st)\<rparr>)"

definition removeAll_stations :: "stations_model \<Rightarrow> stations_model" where
  "removeAll_stations st = saveToDatabase (st\<lparr>stationList := []\<rparr>)"

text \<open>
  \<^verbatim>\<open>nextStation\<close>: the first station above \<open>freq\<close>, in list order; when the loop finds none
  the source reads \<^verbatim>\<open>stationList[0].frequency\<close>, which throws on the empty list.
\<close>

fun nextStation_loop :: "station list \<Rightarrow> real \<Rightarrow> real option" where
  "nextStation_loop [] freq = None"
| "nextStation_loop (s # ss) freq =
     (if frequency s > freq then Some (frequency s) else nextStation_loop ss freq)"

definition nextStation :: "stations_model \<Rightarrow> real \<Rightarrow> js_error + real" where
  "nextStation st freq =
     (case nextStation_loop (stationList st) freq of
        Some f \<Rightarrow> Inr f
      | None \<Rightarrow> (case stationList st of [] \<Rightarrow> Inl TypeError | s # _ \<Rightarrow> Inr (frequency s)))"

text \<open>
  \<^verbatim>\<open>prevStation\<close>: the loop runs from the last index down to 0, so it is the same search
  on the reversed list; when it finds none the source reads
  \<^verbatim>\<open>stationList[stationsLen - 1].frequency\<close>, index \<open>-1\<close> on the empty list.
\<close>

fun prevStation_loop :: "station list \<Rightarrow> real \<Rightarrow> real option" where
  "prevStation_loop [] freq = None"
| "prevStation_loop (s # ss) freq =
     (if frequency s < freq then Some (frequency s) else prevStation_loop ss freq)"

definition prevStation :: "stations_model \<Rightarrow> real \<Rightarrow> js_error + real" where
  "prevStation st freq =
     (case prevStation_loop (rev (stationList st)) freq of
        Some f \<Rightarrow> Inr f
      | None \<Rightarrow> (case rev (stationList st) of [] \<Rightarrow> Inl TypeError | s # _ \<Rightarrow> Inr (frequency s)))"

subsection \<open>Sequences of store calls\<close>

datatype store_call = Save string real "bool option" | Remove real | RemoveAll

fun store_step :: "stations_model \<Rightarrow> store_call \<Rightarrow> stations_model" where
  "store_step st (Save nm freq ow) = save nm freq ow st"
| "store_step st (Remove freq) = remove_station freq st"
| "store_step st RemoveAll = removeAll_stations st"

definition run_calls :: "store_call list \<Rightarrow> stations_model \<Rightarrow> stations_model" where
  "run_calls cs st = foldl store_step st cs"

text \<open>The invariant of the collection: strictly ascending frequencies.\<close>

definition ascending :: "station list \<Rightarrow> bool" where
  "ascending sl = sorted_wrt (<) (map frequency sl)"

subsection \<open>Numbers as text\<close>

text \<open>The decimal text of a non-negative integer, as string concatenation with a number gives.\<close>

definition digit_char :: "nat \<Rightarrow> char" where
  "digit_char d = ''0123456789'' ! d"

fun string_of_nat :: "nat \<Rightarrow> string" where
  "string_of_nat n =
     (if n < 10 then [digit_char n] else string_of_nat (n div 10) @ [digit_char (n mod 10)])"

declare string_of_nat.simps [simp del]

text \<open>\<^verbatim>\<open>Math.round\<close> rounds to the nearest integer, a half upwards.\<close>

definition Math_round :: "real \<Rightarrow> int" where
  "Math_round x = \<lfloor>x + 1 / 2\<rfloor>"

subsection \<open>The tuner device\<close>

text \<open>
  Modelled from the spec: the platform object \<^verbatim>\<open>tizen.fmradio\<close> is an external capability.
  It has a state (idle, playing or scanning), a frequency, a mute flag and two static
  bounds. \<^verbatim>\<open>start(freq)\<close> tunes to the frequency and sets the state to playing,
  \<^verbatim>\<open>stop()\<close> leaves it idle, \<^verbatim>\<open>scanStart\<close> enters scanning; seek, scan and scan-cancel
  complete later through a callback, and a scan session ends at scan finish or cancel.
  The field \<open>fm_calls\<close> logs the calls the application issues to the device.
\<close>

datatype radio_state = IDLE | PLAYING | SCANNING

datatype device_call =
  CallStart real | CallStop | CallSeekUp | CallSeekDown | CallScanStart | CallScanStop

record fmradio =
  fm_state :: radio_state
  fm_frequency :: real
  fm_mute :: bool
  frequencyLowerBound :: real
  frequencyUpperBound :: real
  fm_calls :: "device_call list"

definition fm_start :: "real \<Rightarrow> fmradio \<Rightarrow> fmradio" where
  "fm_start freq d =
     d\<lparr>fm_state := PLAYING, fm_frequency := freq, fm_calls := fm_calls d @ [CallStart freq]\<rparr>"

definition fm_stop :: "fmradio \<Rightarrow> fmradio" where
  "fm_stop d = d\<lparr>fm_state := IDLE, fm_calls := fm_calls d @ [CallStop]\<rparr>"

definition fm_scanStart :: "fmradio \<Rightarrow> fmradio" where
  "fm_scanStart d = d\<lparr>fm_state := SCANNING, fm_calls := fm_calls d @ [CallScanStart]\<rparr>"

definition fm_request :: "device_call \<Rightarrow> fmradio \<Rightarrow> fmradio" where
  "fm_request c d = d\<lparr>fm_calls := fm_calls d @ [c]\<rparr>"

text \<open>The device's side of the end of a scan session, before it runs the callback.\<close>

definition fm_scan_ended :: "fmradio \<Rightarrow> fmradio" where
  "fm_scan_ended d = d\<lparr>fm_state := IDLE\<rparr>"

subsection \<open>views/popup\<close>

text \<open>
  Of the popup the model keeps its title, its text, the value of the progress bar and
  whether it is open; buttons, validators and style classes are left out.
\<close>

record popup_view =
  popup_title :: string
  popup_text :: string
  progressBar :: int
  popup_open :: bool

definition showPopup :: "string \<Rightarrow> string \<Rightarrow> popup_view \<Rightarrow> popup_view" where
  "showPopup title txt p = p\<lparr>popup_title := title, popup_text := txt, popup_open := True\<rparr>"

definition updateProgress :: "real \<Rightarrow> nat \<Rightarrow> popup_view \<Rightarrow> popup_view" where
  "updateProgress progressValue stationsFound p =
     (let p1 = p\<lparr>popup_text := ''Stations found: '' @ string_of_nat stationsFound\<rparr>;
          p2 = p1\<lparr>progressBar := \<lfloor>progressValue\<rfloor>\<rparr>
      in if progressValue = 100 then p2\<lparr>popup_open := False, progressBar := 0\<rparr> else p2)"

subsection \<open>The application state\<close>

text \<open>
  The main view keeps the debounce flag, the two labels (the frequency label as the
  number it renders with one decimal) and which buttons are enabled.
\<close>

record main_view =
  buttonBlock :: bool
  frequencyLabel :: real
  nameLabel :: string
  nameLabel_unnamed :: bool
  stationsBtn :: bool
  nextStationBtn :: bool
  prevStationBtn :: bool
  active_page :: string

record app =
  radio :: fmradio
  minFrequency :: real
  maxFrequency :: real
  stationCount :: nat
  frequencyBeforeScan :: real
  stations :: stations_model
  popup :: popup_view
  view :: main_view

text \<open>
  The object that \<^verbatim>\<open>models/radio\<close> returns is built once, when the module is defined, so
  its properties \<^verbatim>\<open>minFrequency\<close> and \<^verbatim>\<open>maxFrequency\<close> hold the initial values of the
  variables; these are what the main view reads as \<^verbatim>\<open>radio.minFrequency\<close> and
  \<^verbatim>\<open>radio.maxFrequency\<close>.
\<close>

definition radio_minFrequency :: real where
  "radio_minFrequency = 875 / 10"

definition radio_maxFrequency :: real where
  "radio_maxFrequency = 108"

subsection \<open>models/radio: state, frequency, start and stop\<close>

definition getState :: "app \<Rightarrow> radio_state" where
  "getState s = fm_state (radio s)"

definition getFrequency :: "app \<Rightarrow> real" where
  "getFrequency s = real_of_int (Math_round (fm_frequency (radio s) * 10)) / 10"

definition setMuted :: "bool \<Rightarrow> app \<Rightarrow> app" where
  "setMuted isMuted s = s\<lparr>radio := (radio s)\<lparr>fm_mute := isMuted\<rparr>\<rparr>"

definition start :: "real \<Rightarrow> app \<Rightarrow> app" where
  "start freq s =
     (if fm_state (radio s) \<noteq> SCANNING then s\<lparr>radio := fm_start freq (radio s)\<rparr> else s)"

definition stop :: "app \<Rightarrow> app" where
  "stop s = (if fm_state (radio s) = PLAYING then s\<lparr>radio := fm_stop (radio s)\<rparr> else s)"

definition scanStopSuccess :: "app \<Rightarrow> app" where
  "scanStopSuccess s = (start (frequencyBeforeScan s) s)\<lparr>frequencyBeforeScan := 0\<rparr>"

definition errorCallback :: "string \<Rightarrow> string \<Rightarrow> app \<Rightarrow> app" where
  "errorCallback error_name error_message s =
     s\<lparr>popup := showPopup error_name error_message (popup s)\<rparr>"

definition seekUp :: "app \<Rightarrow> app" where
  "seekUp s =
     (if fm_state (radio s) = PLAYING then s\<lparr>radio := fm_request CallSeekUp (radio s)\<rparr> else s)"

definition seekDown :: "app \<Rightarrow> app" where
  "seekDown s =
     (if fm_state (radio s) = PLAYING then s\<lparr>radio := fm_request CallSeekDown (radio s)\<rparr> else s)"

definition scanStart :: "app \<Rightarrow> app" where
  "scanStart s =
     (let s1 = (if fm_state (radio s) = PLAYING then s\<lparr>radio := fm_stop (radio s)\<rparr> else s);
          s2 = s1\<lparr>stationCount := 0\<rparr>;
          s3 = s2\<lparr>frequencyBeforeScan := getFrequency s2\<rparr>
      in s3\<lparr>radio := fm_scanStart (radio s3)\<rparr>)"

definition scanStop :: "app \<Rightarrow> app" where
  "scanStop s =
     (if fm_state (radio s) = SCANNING then s\<lparr>radio := fm_request CallScanStop (radio s)\<rparr> else s)"

text \<open>The device reports a successful cancel: the scan session is over, the callback runs.\<close>

definition scanStop_succeeded :: "app \<Rightarrow> app" where
  "scanStop_succeeded s = scanStopSuccess (s\<lparr>radio := fm_scan_ended (radio s)\<rparr>)"

definition onChangeAntennaConnectionListener :: "bool \<Rightarrow> app \<Rightarrow> app" where
  "onChangeAntennaConnectionListener isAntennaConnected s =
     (if isAntennaConnected then start (getFrequency s) s else s)"

definition onInterrupted :: "string \<Rightarrow> app \<Rightarrow> app" where
  "onInterrupted reason s = s\<lparr>popup := showPopup ''Radio interrupted'' reason (popup s)\<rparr>"

definition onInterruptedFinish :: "app \<Rightarrow> app" where
  "onInterruptedFinish s = start (getFrequency s) s"

definition init :: "app \<Rightarrow> app" where
  "init s =
     (let s1 = s\<lparr>minFrequency := frequencyLowerBound (radio s)\<rparr>;
          s2 = s1\<lparr>maxFrequency := frequencyUpperBound (radio s1)\<rparr>;
          freq = getLastFrequency (stations s2);
          freq' = (if freq = 0 then minFrequency s2 else freq)
      in start freq' s2)"

subsection \<open>views/main\<close>

definition refreshStationButtons :: "app \<Rightarrow> app" where
  "refreshStationButtons s =
     (let stationsCount = length (getStationList (stations s))
      in if stationsCount \<noteq> 0
         then (if stationsCount > 1
               then s\<lparr>view := (view s)\<lparr>stationsBtn := True, nextStationBtn := True,
                                       prevStationBtn := True\<rparr>\<rparr>
               else s\<lparr>view := (view s)\<lparr>stationsBtn := True, nextStationBtn := False,
                                       prevStationBtn := False\<rparr>\<rparr>)
         else s\<lparr>view := (view s)\<lparr>stationsBtn := False, nextStationBtn := False,
                                 prevStationBtn := False\<rparr>\<rparr>)"

definition refreshStation :: "app \<Rightarrow> app" where
  "refreshStation s =
     (let freq = getFrequency s;
          nm = getStationName (stations s) freq;
          s1 = s\<lparr>view := (view s)\<lparr>buttonBlock := False, frequencyLabel := freq,
                                  nameLabel := nm, nameLabel_unnamed := (nm = ''UNNAMED'')\<rparr>\<rparr>;
          s2 = s1\<lparr>stations := setLastFrequency freq (stations s1)\<rparr>
      in refreshStationButtons s2)"

text \<open>The frequency that \<^verbatim>\<open>tune\<close> hands to \<^verbatim>\<open>radio.start\<close>.\<close>

definition tune_resolve :: "real \<Rightarrow> real" where
  "tune_resolve freq =
     (if freq < radio_minFrequency then radio_maxFrequency
      else if freq > radio_maxFrequency then radio_minFrequency
      else freq)"

definition tune :: "real \<Rightarrow> app \<Rightarrow> app" where
  "tune freq s = refreshStation (start (tune_resolve freq) s)"

definition switchToFrequency :: "real \<Rightarrow> app \<Rightarrow> app" where
  "switchToFrequency freq s =
     (let s1 = tune freq s in s1\<lparr>view := (view s1)\<lparr>active_page := ''main-page''\<rparr>\<rparr>)"

text \<open>
  \<^verbatim>\<open>tune\<close> and \<^verbatim>\<open>switchToFrequency\<close> when the frequency is \<^verbatim>\<open>undefined\<close>: both comparisons
  with the bounds are false, so \<^verbatim>\<open>undefined\<close> is what \<^verbatim>\<open>radio.start\<close> receives. During a scan
  \<^verbatim>\<open>start\<close> does nothing and \<^verbatim>\<open>refreshStation\<close> follows. Outside a scan \<^verbatim>\<open>start\<close> hands
  \<^verbatim>\<open>undefined\<close> to the device; the device interface gives \<^verbatim>\<open>start\<close> a frequency and does not
  say what the device does without one, so the model ends at that call and returns the
  state in which it is issued.
\<close>

datatype device_start_undefined = StartUndefined app

definition tune_undefined :: "app \<Rightarrow> device_start_undefined + app" where
  "tune_undefined s =
     (if fm_state (radio s) \<noteq> SCANNING then Inl (StartUndefined s) else Inr (refreshStation s))"

definition switchToFrequency_undefined :: "app \<Rightarrow> device_start_undefined + app" where
  "switchToFrequency_undefined s =
     (case tune_undefined s of
        Inl u \<Rightarrow> Inl u
      | Inr s1 \<Rightarrow> Inr (s1\<lparr>view := (view s1)\<lparr>active_page := ''main-page''\<rparr>\<rparr>))"

definition view_nextStation :: "app \<Rightarrow> js_error + app" where
  "view_nextStation s =
     (case nextStation (stations s) (getFrequency s) of
        Inl e \<Rightarrow> Inl e
      | Inr nextFreq \<Rightarrow> Inr (if nextFreq \<noteq> 0 then tune nextFreq s else s))"

definition view_prevStation :: "app \<Rightarrow> js_error + app" where
  "view_prevStation s =
     (case prevStation (stations s) (getFrequency s) of
        Inl e \<Rightarrow> Inl e
      | Inr prevFreq \<Rightarrow> Inr (if prevFreq \<noteq> 0 then tune prevFreq s else s))"

definition saveStationName :: "string \<Rightarrow> app \<Rightarrow> app" where
  "saveStationName stationName s =
     refreshStation (s\<lparr>stations := save stationName (getFrequency s) (Some True) (stations s)\<rparr>)"

subsection \<open>models/radio: the scan callbacks\<close>

text \<open>
  The per-frequency callback \<^verbatim>\<open>onfrequencyfound\<close> computes its progress value by
  double-precision multiplication and division, whose results the exact reals of this
  theory do not reproduce; it is not embedded.
\<close>

text \<open>
  The loop of \<^verbatim>\<open>onFinished\<close>, from index \<open>i\<close> on: every frequency is saved under the name
  \<^verbatim>\<open>'Station ' + (i + 1)\<close>, the third argument of \<^verbatim>\<open>save\<close> omitted.
\<close>

fun onFinished_loop :: "nat \<Rightarrow> real list \<Rightarrow> stations_model \<Rightarrow> stations_model" where
  "onFinished_loop i [] st = st"
| "onFinished_loop i (f # fs) st =
     onFinished_loop (i + 1) fs (save (''Station '' @ string_of_nat (i + 1)) f None st)"

text \<open>
  Modelled from the spec: the event module \<^verbatim>\<open>core/event\<close> is not part of the sources;
  \<^verbatim>\<open>e.fire\<close> dispatches synchronously to the listeners, here \<^verbatim>\<open>switchToFrequency\<close> of the
  main view. With an empty list the source fires the event with \<^verbatim>\<open>frequencies[0]\<close>, which
  is \<^verbatim>\<open>undefined\<close>.
\<close>

definition onFinished :: "real list \<Rightarrow> app \<Rightarrow> device_start_undefined + app" where
  "onFinished frequencies s =
     (let s1 = s\<lparr>stationCount := length frequencies\<rparr>;
          s2 = s1\<lparr>popup := updateProgress 100 (stationCount s1) (popup s1)\<rparr>;
          s3 = s2\<lparr>stations := onFinished_loop 0 frequencies (stations s2)\<rparr>
      in case frequencies of
           [] \<Rightarrow> switchToFrequency_undefined s3
         | f # _ \<Rightarrow> Inr (switchToFrequency f s3))"

subsection \<open>Concrete states\<close>

text \<open>
  The state of the modules when they are defined, and states reached from it, on which
  the theorems below are run.
\<close>

definition device0 :: fmradio where
  "device0 = \<lparr>fm_state = IDLE, fm_frequency = 875 / 10, fm_mute = False,
               frequencyLowerBound = 875 / 10, frequencyUpperBound = 108, fm_calls = []\<rparr>"

definition app0 :: app where
  "app0 = \<lparr>radio = device0, minFrequency = 875 / 10, maxFrequency = 108, stationCount = 0,
            frequencyBeforeScan = 0, stations = init_stations,
            popup = \<lparr>popup_title = [], popup_text = [], progressBar = 0, popup_open = False\<rparr>,
            view = \<lparr>buttonBlock = False, frequencyLabel = 0, nameLabel = [],
                    nameLabel_unnamed = False, stationsBtn = False, nextStationBtn = False,
                    prevStationBtn = False, active_page = ''main-page''\<rparr>\<rparr>"

definition three_stations :: stations_model where
  "three_stations =
     \<lparr>stationList = [\<lparr>name = ''Station 1'', frequency = 90\<rparr>,
                      \<lparr>name = ''Station 2'', frequency = 955 / 10\<rparr>,
                      \<lparr>name = ''Station 3'', frequency = 1012 / 10\<rparr>],
      lastFrequency = 90, idb = Map.empty\<rparr>"

definition after_scan :: app where
  "after_scan = (scanStart (init app0))\<lparr>radio := fm_scan_ended (radio (scanStart (init app0)))\<rparr>"

definition scanning_from_95 :: app where
  "scanning_from_95 = scanStart (start 95 app0)"

text \<open>A device whose band is 76.0 to 108.0, after \<^verbatim>\<open>init\<close>.\<close>

definition band_76 :: app where
  "band_76 = init (app0\<lparr>radio := device0\<lparr>fm_frequency := 76, frequencyLowerBound := 76\<rparr>\<rparr>)"

definition off_grid :: app where
  "off_grid = app0\<lparr>radio := device0\<lparr>fm_frequency := 9504 / 100\<rparr>\<rparr>"

section \<open>The preset store\<close>

subsection \<open>Sorting and the loops of save and remove\<close>

lemma set_sort_insert: "set (sort_insert cmp x ys) = insert x (set ys)"
  by (induction ys) auto

lemma ascending_sort_insert:
  "ascending ys \<Longrightarrow> frequency x \<notin> frequency ` set ys \<Longrightarrow> ascending (sort_insert compare x ys)"
  unfolding ascending_def
  by (induction ys) (auto simp: compare_def set_sort_insert)

lemma set_sort_into: "set (sort_into cmp acc xs) = set acc \<union> set xs"
  by (induction xs arbitrary: acc) (auto simp: set_sort_insert)

lemma ascending_sort_into:
  "ascending acc \<Longrightarrow> distinct (map frequency xs) \<Longrightarrow>
   frequency ` set acc \<inter> frequency ` set xs = {} \<Longrightarrow> ascending (sort_into compare acc xs)"
proof (induction xs arbitrary: acc)
  case Nil
  then show ?case by simp
next
  case (Cons x xs)
  have a: "ascending (sort_insert compare x acc)"
    using Cons.prems by (intro ascending_sort_insert) auto
  have d: "distinct (map frequency xs)" using Cons.prems by simp
  have i: "frequency ` set (sort_insert compare x acc) \<inter> frequency ` set xs = {}"
    using Cons.prems by (auto simp: set_sort_insert)
  show ?case using Cons.IH [OF a d i] by simp
qed

lemma ascending_distinct: "ascending sl \<Longrightarrow> distinct (map frequency sl)"
  unfolding ascending_def by (simp add: strict_sorted_iff)

lemma ascending_array_sort:
  "distinct (map frequency xs) \<Longrightarrow> ascending (array_sort compare xs)"
  unfolding array_sort_def
  by (rule ascending_sort_into) (simp_all add: ascending_def)

lemma set_array_sort: "set (array_sort cmp xs) = set xs"
  by (simp add: array_sort_def set_sort_into)

lemma save_loop_frequencies:
  "map frequency (fst (save_loop nm freq ow sl)) = map frequency sl"
  by (induction sl) (auto split: prod.splits)

lemma save_loop_exists:
  "snd (save_loop nm freq ow sl) = (freq \<in> frequency ` set sl)"
  by (induction sl) (auto split: prod.splits)

lemma save_loop_absent:
  "freq \<notin> frequency ` set sl \<Longrightarrow> save_loop nm freq ow sl = (sl, False)"
  by (induction sl) auto

lemma save_loop_keep:
  "ow \<noteq> Some True \<Longrightarrow> fst (save_loop nm freq ow sl) = sl"
  by (induction sl) (auto split: prod.splits)

lemma stationList_saveToDatabase [simp]: "stationList (saveToDatabase st) = stationList st"
  by (simp add: saveToDatabase_def idb_add_def Let_def)

lemma ascending_save: "ascending (stationList st) \<Longrightarrow> ascending (stationList (save nm freq ow st))"
proof (cases "freq \<in> frequency ` set (stationList st)")
  case True
  assume a: "ascending (stationList st)"
  obtain sl ex where e: "save_loop nm freq ow (stationList st) = (sl, ex)" by fastforce
  have "ex" using save_loop_exists [of nm freq ow "stationList st"] True e by simp
  moreover have "map frequency sl = map frequency (stationList st)"
    using save_loop_frequencies [of nm freq ow "stationList st"] e by simp
  ultimately show ?thesis using a e by (simp add: save_def ascending_def)
next
  case False
  assume a: "ascending (stationList st)"
  have "distinct (map frequency (stationList st @ [\<lparr>name = nm, frequency = freq\<rparr>]))"
    using ascending_distinct [OF a] False by auto
  then show ?thesis
    using False by (simp add: save_def save_loop_absent ascending_array_sort)
qed

lemma set_remove_loop: "set (remove_loop freq sl) \<subseteq> set sl"
  by (induction sl) auto

lemma ascending_remove_loop: "ascending sl \<Longrightarrow> ascending (remove_loop freq sl)"
  unfolding ascending_def
  using set_remove_loop by (induction sl) fastforce+

lemma ascending_step:
  assumes "ascending (stationList st)"
  shows "ascending (stationList (store_step st c))"
proof (cases c)
  case (Save nm freq ow)
  then show ?thesis using assms by (simp add: ascending_save)
next
  case (Remove freq)
  then show ?thesis using assms by (simp add: remove_station_def ascending_remove_loop)
next
  case RemoveAll
  then show ?thesis by (simp add: removeAll_stations_def ascending_def)
qed

lemma ascending_run: "ascending (stationList st) \<Longrightarrow> ascending (stationList (run_calls cs st))"
  unfolding run_calls_def
  by (induction cs arbitrary: st) (simp_all add: ascending_step)

text \<open>
  C1. Whatever sequence of \<^verbatim>\<open>save\<close>, \<^verbatim>\<open>remove\<close> and \<^verbatim>\<open>removeAll\<close> calls is run from the
  empty collection, the list that \<^verbatim>\<open>getStationList\<close> returns is strictly ascending by
  frequency, and no two of its presets have the same frequency.
\<close>

theorem stationList_strictly_ascending:
  "sorted_wrt (<) (map frequency (getStationList (run_calls cs init_stations)))
   \<and> distinct (map frequency (getStationList (run_calls cs init_stations)))"
proof -
  have "ascending (stationList init_stations)"
    by (simp add: init_stations_def ascending_def)
  then have "ascending (stationList (run_calls cs init_stations))"
    by (rule ascending_run)
  then show ?thesis
    using ascending_distinct by (auto simp: getStationList_def ascending_def)
qed

subsection \<open>Saving twice\<close>

lemma saveToDatabase_idem: "saveToDatabase (saveToDatabase st) = saveToDatabase st"
  by (simp add: saveToDatabase_def idb_add_def Let_def)

lemma save_loop_present:
  "freq \<in> frequency ` set sl \<Longrightarrow> ow \<noteq> Some True \<Longrightarrow> save_loop nm freq ow sl = (sl, True)"
  by (induction sl) auto

lemma save_present: "freq \<in> frequency ` set (stationList (save nm freq ow st))"
proof (cases "freq \<in> frequency ` set (stationList st)")
  case True
  obtain sl ex where e: "save_loop nm freq ow (stationList st) = (sl, ex)" by fastforce
  have "ex" using save_loop_exists [of nm freq ow "stationList st"] True e by simp
  moreover have "map frequency sl = map frequency (stationList st)"
    using save_loop_frequencies [of nm freq ow "stationList st"] e by simp
  then have "frequency ` set sl = frequency ` set (stationList st)"
    by (metis set_map)
  ultimately show ?thesis using True e by (simp add: save_def)
next
  case False
  then show ?thesis
    by (simp add: save_def save_loop_absent set_array_sort)
qed

lemma save_is_saved: "saveToDatabase (save nm freq ow st) = save nm freq ow st"
  by (simp add: save_def saveToDatabase_idem split: prod.splits)

text \<open>
  C5. For every state of the store, name and frequency, a second
  \<^verbatim>\<open>save(name, f, false)\<close> changes nothing: the store, and so the collection and its
  size, are what the first call left.
\<close>

theorem save_no_overwrite_idempotent:
  "save nm f (Some False) (save nm f (Some False) st) = save nm f (Some False) st
   \<and> getStationList (save nm f (Some False) (save nm f (Some False) st))
        = getStationList (save nm f (Some False) st)
   \<and> length (getStationList (save nm f (Some False) (save nm f (Some False) st)))
        = length (getStationList (save nm f (Some False) st))"
proof -
  let ?st1 = "save nm f (Some False) st"
  have l: "save_loop nm f (Some False) (stationList ?st1) = (stationList ?st1, True)"
    by (rule save_loop_present [OF save_present]) simp
  have "save nm f (Some False) ?st1 = saveToDatabase ?st1"
    by (simp add: save_def [of nm f "Some False" ?st1] l)
  then have "save nm f (Some False) ?st1 = ?st1"
    by (simp add: save_is_saved)
  then show ?thesis by simp
qed

subsection \<open>Next and previous preset\<close>

text \<open>
  C2. On an empty collection \<^verbatim>\<open>nextStation\<close> and \<^verbatim>\<open>prevStation\<close> do not return a
  "no presets available" outcome: the loop finds nothing, the read of element 0 (of
  element \<open>-1\<close>) yields \<^verbatim>\<open>undefined\<close>, and its property access throws. The handlers of
  the two preset buttons of the main view pass the exception on.
\<close>

theorem nextStation_prevStation_empty_throw:
  "nextStation (st\<lparr>stationList := []\<rparr>) f = Inl TypeError
   \<and> prevStation (st\<lparr>stationList := []\<rparr>) f = Inl TypeError
   \<and> view_nextStation (s\<lparr>stations := (stations s)\<lparr>stationList := []\<rparr>\<rparr>) = Inl TypeError
   \<and> view_prevStation (s\<lparr>stations := (stations s)\<lparr>stationList := []\<rparr>\<rparr>) = Inl TypeError"
  by (simp add: nextStation_def prevStation_def view_nextStation_def view_prevStation_def)

lemma nextStation_loop_skip:
  "\<forall>a \<in> set as. frequency a \<le> f \<Longrightarrow> nextStation_loop (as @ xs) f = nextStation_loop xs f"
  by (induction as) auto

lemma prevStation_loop_skip:
  "\<forall>a \<in> set as. g \<le> frequency a \<Longrightarrow> prevStation_loop (as @ xs) g = prevStation_loop xs g"
  by (induction as) auto

lemma ascending_split:
  "ascending (as @ x # bs) \<Longrightarrow>
     (\<forall>a \<in> set as. frequency a < frequency x) \<and> (\<forall>b \<in> set bs. frequency x < frequency b)
     \<and> (\<forall>a \<in> set as. \<forall>b \<in> set bs. frequency a < frequency b)"
  by (auto simp: ascending_def sorted_wrt_append)

lemma ascending_hd_le: "ascending sl \<Longrightarrow> a \<in> set sl \<Longrightarrow> frequency (hd sl) \<le> frequency a"
  by (cases sl) (auto simp: ascending_def intro: less_imp_le)

lemma round_trip_list:
  assumes asc: "ascending sl" and mem: "f \<in> frequency ` set sl"
  shows "\<exists>g. (case nextStation_loop sl f of Some h \<Rightarrow> h | None \<Rightarrow> frequency (hd sl)) = g
           \<and> (case prevStation_loop (rev sl) g of Some h \<Rightarrow> h | None \<Rightarrow> frequency (hd (rev sl))) = f"
proof -
  from mem obtain x where "x \<in> set sl" and fx: "frequency x = f" by auto
  then obtain as bs where sl: "sl = as @ x # bs" by (auto dest: split_list)
  note sp = ascending_split [OF asc [unfolded sl]]
  have lo: "\<forall>a \<in> set as. frequency a \<le> f" using sp fx by auto
  show ?thesis
  proof (cases bs)
    case Nil
    have n: "nextStation_loop sl f = None"
      using nextStation_loop_skip [OF lo, of "[x]"] fx by (simp add: sl Nil)
    have "\<forall>a \<in> set (rev sl). frequency (hd sl) \<le> frequency a"
      using ascending_hd_le [OF asc] by simp
    then have "prevStation_loop (rev sl @ []) (frequency (hd sl)) = prevStation_loop [] (frequency (hd sl))"
      by (rule prevStation_loop_skip)
    then have p: "prevStation_loop (rev sl) (frequency (hd sl)) = None" by simp
    show ?thesis using n p fx by (simp add: sl Nil)
  next
    case (Cons b cs)
    have fb: "f < frequency b" using sp fx by (simp add: Cons)
    have n: "nextStation_loop sl f = Some (frequency b)"
      using nextStation_loop_skip [OF lo, of "x # b # cs"] fx fb by (simp add: sl Cons)
    have "ascending ((as @ [x]) @ b # cs)" using asc by (simp add: sl Cons)
    from ascending_split [OF this]
    have hi: "\<forall>c \<in> set (rev cs). frequency b \<le> frequency c" by auto
    have "prevStation_loop (rev cs @ b # x # rev as) (frequency b) = prevStation_loop (b # x # rev as) (frequency b)"
      using hi by (rule prevStation_loop_skip)
    then have p: "prevStation_loop (rev sl) (frequency b) = Some f"
      using fb fx by (simp add: sl Cons)
    show ?thesis using n p by simp
  qed
qed

lemma nextStation_nonempty:
  "stationList st \<noteq> [] \<Longrightarrow>
   nextStation st f = Inr (case nextStation_loop (stationList st) f of
                             Some h \<Rightarrow> h | None \<Rightarrow> frequency (hd (stationList st)))"
  by (cases "stationList st") (simp_all add: nextStation_def split: option.splits)

lemma prevStation_nonempty:
  "stationList st \<noteq> [] \<Longrightarrow>
   prevStation st g = Inr (case prevStation_loop (rev (stationList st)) g of
                             Some h \<Rightarrow> h | None \<Rightarrow> frequency (hd (rev (stationList st))))"
  by (cases "rev (stationList st)") (simp_all add: prevStation_def split: option.splits)

text \<open>
  C3. In a collection of at least two presets, strictly ascending by frequency as the
  store keeps it, \<^verbatim>\<open>prevStation(nextStation(f))\<close> is \<open>f\<close> for every preset frequency \<open>f\<close>,
  the wrap from the highest preset to the lowest included.
\<close>

theorem prevStation_nextStation_round_trip:
  assumes "sorted_wrt (<) (map frequency (getStationList st))"
    and "2 \<le> length (getStationList st)"
    and "f \<in> frequency ` set (getStationList st)"
  shows "\<exists>g. nextStation st f = Inr g \<and> prevStation st g = Inr f"
proof -
  have ne: "stationList st \<noteq> []"
    using assms(2) by (auto simp: getStationList_def)
  have asc: "ascending (stationList st)"
    using assms(1) by (simp add: ascending_def getStationList_def)
  have mem: "f \<in> frequency ` set (stationList st)"
    using assms(3) by (simp add: getStationList_def)
  from round_trip_list [OF asc mem] show ?thesis
    by (simp add: nextStation_nonempty [OF ne] prevStation_nonempty [OF ne])
qed

theorem prevStation_nextStation_round_trip_witness:
  "sorted_wrt (<) (map frequency (getStationList three_stations))
   \<and> 2 \<le> length (getStationList three_stations)
   \<and> 1012 / 10 \<in> frequency ` set (getStationList three_stations)
   \<and> nextStation three_stations (1012 / 10) = Inr 90
   \<and> prevStation three_stations 90 = Inr (1012 / 10)
   \<and> (\<exists>g. nextStation three_stations (1012 / 10) = Inr g
            \<and> prevStation three_stations g = Inr (1012 / 10))"
proof -
  have h1: "sorted_wrt (<) (map frequency (getStationList three_stations))"
    by (simp add: three_stations_def getStationList_def)
  have h2: "2 \<le> length (getStationList three_stations)"
    by (simp add: three_stations_def getStationList_def)
  have h3: "1012 / 10 \<in> frequency ` set (getStationList three_stations)"
    by (simp add: three_stations_def getStationList_def)
  have n: "nextStation three_stations (1012 / 10) = Inr 90"
    by (simp add: three_stations_def nextStation_def)
  have p: "prevStation three_stations 90 = Inr (1012 / 10)"
    by (simp add: three_stations_def prevStation_def)
  from prevStation_nextStation_round_trip [OF h1 h2 h3] h1 h2 h3 n p show ?thesis
    by blast
qed

section \<open>The tuner session\<close>

subsection \<open>What the view functions leave alone\<close>

lemma radio_refreshStation: "radio (refreshStation s) = radio s"
  by (simp add: refreshStation_def refreshStationButtons_def Let_def)

lemma stations_refreshStation:
  "stations (refreshStation s) = setLastFrequency (getFrequency s) (stations s)"
  by (simp add: refreshStation_def refreshStationButtons_def Let_def)

lemma stationList_setLastFrequency [simp]:
  "stationList (setLastFrequency f st) = stationList st"
  by (simp add: setLastFrequency_def)

lemma lastFrequency_setLastFrequency [simp]:
  "lastFrequency (setLastFrequency f st) = f"
  by (simp add: setLastFrequency_def saveToDatabase_def idb_add_def Let_def)

lemma idb_setLastFrequency [simp]:
  "idb (setLastFrequency f st) ''lastFrequency'' = Some (Number f)"
  by (simp add: setLastFrequency_def saveToDatabase_def idb_add_def Let_def)

lemma radio_switchToFrequency:
  "radio (switchToFrequency f s) = radio (start (tune_resolve f) s)"
  by (simp add: switchToFrequency_def tune_def Let_def radio_refreshStation)

lemma stations_switchToFrequency:
  "stations (switchToFrequency f s) =
     setLastFrequency (getFrequency (start (tune_resolve f) s)) (stations (start (tune_resolve f) s))"
  by (simp add: switchToFrequency_def tune_def Let_def stations_refreshStation)

lemma stations_start [simp]: "stations (start f s) = stations s"
  by (simp add: start_def)

lemma stationCount_switchToFrequency [simp]:
  "stationCount (switchToFrequency f s) = stationCount s"
  by (simp add: switchToFrequency_def tune_def Let_def refreshStation_def
      refreshStationButtons_def start_def)

subsection \<open>Manual tuning\<close>

text \<open>
  What \<^verbatim>\<open>tune\<close> does: it wraps against the two exported constants, and outside a scan the
  wrapped value is the argument of the device call.
\<close>

lemma tune_resolve_cases:
  "(f < radio_minFrequency \<longrightarrow> tune_resolve f = radio_maxFrequency)
   \<and> (radio_maxFrequency < f \<longrightarrow> tune_resolve f = radio_minFrequency)
   \<and> (radio_minFrequency \<le> f \<and> f \<le> radio_maxFrequency \<longrightarrow> tune_resolve f = f)
   \<and> radio_minFrequency \<le> tune_resolve f \<and> tune_resolve f \<le> radio_maxFrequency"
  by (simp add: tune_resolve_def radio_minFrequency_def radio_maxFrequency_def)

lemma fm_calls_tune:
  "getState s \<noteq> SCANNING \<Longrightarrow>
     fm_calls (radio (tune f s)) = fm_calls (radio s) @ [CallStart (tune_resolve f)]"
  by (simp add: tune_def radio_refreshStation start_def fm_start_def getState_def)

lemma band_76_bounds: "minFrequency band_76 = 76 \<and> maxFrequency band_76 = 108"
  by (simp add: band_76_def init_def Let_def start_def app0_def device0_def)

lemma band_76_state: "getState band_76 = PLAYING"
  by (simp add: band_76_def init_def Let_def start_def getState_def fm_start_def app0_def
      device0_def)

text \<open>
  C4. Manual tuning is to hand \<^verbatim>\<open>start\<close> the request itself when it lies within the band
  from \<^verbatim>\<open>minFrequency\<close> to \<^verbatim>\<open>maxFrequency\<close>, which \<^verbatim>\<open>init\<close> reads from the device. The code
  does not: on a device whose band is 76.0 to 108.0 the session bounds are 76.0 and 108.0
  and the request 80.0 lies within them, yet \<^verbatim>\<open>tune(80.0)\<close> compares it with the exported
  constant 87.5 and starts the device at 108.0 instead of 80.0.
\<close>

theorem tune_ignores_device_band:
  "minFrequency band_76 = frequencyLowerBound (radio band_76)
   \<and> maxFrequency band_76 = frequencyUpperBound (radio band_76)
   \<and> minFrequency band_76 = 76 \<and> maxFrequency band_76 = 108
   \<and> minFrequency band_76 \<le> 80 \<and> 80 \<le> maxFrequency band_76
   \<and> getState band_76 \<noteq> SCANNING
   \<and> tune_resolve 80 = 108
   \<and> fm_calls (radio (tune 80 band_76)) = fm_calls (radio band_76) @ [CallStart 108]
   \<and> fm_frequency (radio (tune 80 band_76)) = 108"
proof -
  have b: "frequencyLowerBound (radio band_76) = 76 \<and> frequencyUpperBound (radio band_76) = 108"
    by (simp add: band_76_def init_def Let_def start_def fm_start_def app0_def device0_def)
  have n: "getState band_76 \<noteq> SCANNING"
    by (simp add: band_76_state)
  have r: "tune_resolve 80 = 108"
    by (simp add: tune_resolve_def radio_minFrequency_def radio_maxFrequency_def)
  have c: "fm_calls (radio (tune 80 band_76)) = fm_calls (radio band_76) @ [CallStart 108]"
    using fm_calls_tune [OF n, of 80] by (simp add: r)
  have f: "fm_frequency (radio (tune 80 band_76)) = 108"
    using n by (simp add: tune_def radio_refreshStation start_def fm_start_def getState_def r)
  show ?thesis
    using b n r c f band_76_bounds by simp
qed

subsection \<open>Start during a scan\<close>

lemma scanning_from_95_state: "getState scanning_from_95 = SCANNING"
  by (simp add: scanning_from_95_def scanStart_def Let_def getState_def fm_scanStart_def)

lemma scanning_from_95_restore: "frequencyBeforeScan scanning_from_95 = 95"
  by (simp add: scanning_from_95_def scanStart_def start_def Let_def app0_def device0_def
      fm_start_def fm_stop_def getFrequency_def Math_round_def)

text \<open>
  C8. While the tuner is scanning, \<^verbatim>\<open>start(f)\<close> does nothing for any \<open>f\<close>: the whole state,
  the scanning state and the log of device calls included, is unchanged, and the result
  is a state, not an error.
\<close>

theorem start_while_scanning_noop:
  "getState s = SCANNING \<longrightarrow>
     start f s = s \<and> getState (start f s) = SCANNING
     \<and> fm_calls (radio (start f s)) = fm_calls (radio s)"
  by (simp add: start_def getState_def)

theorem start_while_scanning_noop_witness:
  "getState scanning_from_95 = SCANNING
   \<and> start 100 scanning_from_95 = scanning_from_95
   \<and> fm_calls (radio (start 100 scanning_from_95)) = fm_calls (radio scanning_from_95)"
  using start_while_scanning_noop [of scanning_from_95 100] scanning_from_95_state by simp

subsection \<open>Cancelling a scan\<close>

text \<open>
  C7. When \<^verbatim>\<open>scanStop()\<close> is called while scanning and the restore point is 95.0, the
  cancel is requested from the device, and once the device reports success the tuner
  plays at 95.0 and the restore point is reset to 0; in every other state \<^verbatim>\<open>scanStop()\<close>
  changes nothing.
\<close>

theorem scanStop_restores_frequency:
  "(getState s = SCANNING \<and> frequencyBeforeScan s = 95 \<longrightarrow>
      fm_calls (radio (scanStop s)) = fm_calls (radio s) @ [CallScanStop]
      \<and> getState (scanStop_succeeded (scanStop s)) = PLAYING
      \<and> fm_frequency (radio (scanStop_succeeded (scanStop s))) = 95
      \<and> getFrequency (scanStop_succeeded (scanStop s)) = 95
      \<and> frequencyBeforeScan (scanStop_succeeded (scanStop s)) = 0)
   \<and> (getState s \<noteq> SCANNING \<longrightarrow> scanStop s = s)"
  by (simp add: getState_def scanStop_def scanStop_succeeded_def scanStopSuccess_def start_def
      fm_request_def fm_scan_ended_def fm_start_def getFrequency_def Math_round_def)

theorem scanStop_restores_frequency_witness:
  "getState scanning_from_95 = SCANNING \<and> frequencyBeforeScan scanning_from_95 = 95
   \<and> getState (scanStop_succeeded (scanStop scanning_from_95)) = PLAYING
   \<and> getFrequency (scanStop_succeeded (scanStop scanning_from_95)) = 95
   \<and> frequencyBeforeScan (scanStop_succeeded (scanStop scanning_from_95)) = 0
   \<and> getState app0 \<noteq> SCANNING \<and> scanStop app0 = app0"
proof -
  have i: "getState app0 \<noteq> SCANNING"
    by (simp add: getState_def app0_def device0_def)
  show ?thesis
    using scanStop_restores_frequency [of scanning_from_95] scanStop_restores_frequency [of app0]
      scanning_from_95_state scanning_from_95_restore i
    by simp
qed

subsection \<open>Scan completion\<close>

lemma save_loop_None: "save_loop nm f None sl = save_loop nm f (Some False) sl"
  by (induction sl) auto

lemma save_None: "save nm f None st = save nm f (Some False) st"
  by (simp add: save_def save_loop_None)

lemma onFinished_loop_three:
  "onFinished_loop 0 [f1, f2, f3] st =
     save ''Station 3'' f3 (Some False)
       (save ''Station 2'' f2 (Some False) (save ''Station 1'' f1 (Some False) st))"
proof -
  have 1: "string_of_nat (Suc 0) = ''1''"
    by (subst string_of_nat.simps) (simp add: digit_char_def)
  have 2: "string_of_nat (Suc (Suc 0)) = ''2''"
    by (subst string_of_nat.simps) (simp add: digit_char_def)
  have 3: "string_of_nat (Suc (Suc (Suc 0))) = ''3''"
    by (subst string_of_nat.simps) (simp add: digit_char_def)
  show ?thesis by (simp add: save_None 1 2 3)
qed

lemma save_into_empty:
  "stationList st = [] \<Longrightarrow> stationList (save nm f ow st) = [\<lparr>name = nm, frequency = f\<rparr>]"
  by (simp add: save_def array_sort_def)

lemma three_saves:
  assumes "stationList st = []" and "f1 < f2" and "f2 < f3"
  shows "stationList (save n3 f3 ow (save n2 f2 ow (save n1 f1 ow st)))
     = [\<lparr>name = n1, frequency = f1\<rparr>, \<lparr>name = n2, frequency = f2\<rparr>,
        \<lparr>name = n3, frequency = f3\<rparr>]"
proof -
  let ?s1 = "save n1 f1 ow st"
  let ?s2 = "save n2 f2 ow ?s1"
  have 1: "stationList ?s1 = [\<lparr>name = n1, frequency = f1\<rparr>]"
    using assms(1) by (rule save_into_empty)
  have 2: "stationList ?s2 = [\<lparr>name = n1, frequency = f1\<rparr>, \<lparr>name = n2, frequency = f2\<rparr>]"
    using assms(2) by (simp add: save_def [of _ _ _ ?s1] 1 array_sort_def compare_def)
  show ?thesis
    using assms(2,3) by (simp add: save_def [of _ _ _ ?s2] 2 array_sort_def compare_def)
qed

lemma after_scan_empty: "getStationList (stations after_scan) = []"
  by (simp add: after_scan_def scanStart_def init_def start_def Let_def app0_def
      getLastFrequency_def getStationList_def init_stations_def)

lemma after_scan_idle: "getState after_scan = IDLE"
  by (simp add: after_scan_def getState_def fm_scan_ended_def)

text \<open>
  C6. When the scan-finished callback receives \<open>[90.0, 95.5, 101.2]\<close> and the store is
  empty, the store then holds Station 1 at 90.0, Station 2 at 95.5 and Station 3 at
  101.2, in that order; the saves of the loop are saves with the overwrite flag false;
  and, the device having left the scanning state when it runs the callback, the tuner
  plays at 90.0, which is also the last frequency of the store.
\<close>

theorem onFinished_three_frequencies:
  assumes "getStationList (stations s) = []"
  shows "\<exists>s'. onFinished [90, 955 / 10, 1012 / 10] s = Inr s'
     \<and> getStationList (stations s') =
         [\<lparr>name = ''Station 1'', frequency = 90\<rparr>,
          \<lparr>name = ''Station 2'', frequency = 955 / 10\<rparr>,
          \<lparr>name = ''Station 3'', frequency = 1012 / 10\<rparr>]
     \<and> onFinished_loop 0 [90, 955 / 10, 1012 / 10] (stations s) =
         save ''Station 3'' (1012 / 10) (Some False)
           (save ''Station 2'' (955 / 10) (Some False)
             (save ''Station 1'' 90 (Some False) (stations s)))
     \<and> stationCount s' = 3
     \<and> (getState s \<noteq> SCANNING \<longrightarrow>
          getState s' = PLAYING \<and> fm_frequency (radio s') = 90 \<and> getFrequency s' = 90
          \<and> getLastFrequency (stations s') = 90)"
proof -
  let ?fs = "[90, 955 / 10, 1012 / 10] :: real list"
  let ?s1 = "s\<lparr>stationCount := length ?fs\<rparr>"
  let ?s2 = "?s1\<lparr>popup := updateProgress 100 (stationCount ?s1) (popup ?s1)\<rparr>"
  let ?s3 = "?s2\<lparr>stations := onFinished_loop 0 ?fs (stations ?s2)\<rparr>"
  let ?s' = "switchToFrequency 90 ?s3"
  have e: "onFinished ?fs s = Inr ?s'"
    by (simp add: onFinished_def Let_def)
  have st: "stationList (stations s) = []"
    using assms by (simp add: getStationList_def)
  have l: "getStationList (stations ?s') =
         [\<lparr>name = ''Station 1'', frequency = 90\<rparr>,
          \<lparr>name = ''Station 2'', frequency = 955 / 10\<rparr>,
          \<lparr>name = ''Station 3'', frequency = 1012 / 10\<rparr>]"
    using three_saves [OF st, of 90 "955 / 10" "1012 / 10" "''Station 3''" "Some False"
        "''Station 2''" "''Station 1''"]
    by (simp add: getStationList_def stations_switchToFrequency onFinished_loop_three
        del: onFinished_loop.simps)
  have c: "stationCount ?s' = 3" by simp
  have t: "tune_resolve 90 = 90"
    by (simp add: tune_resolve_def radio_minFrequency_def radio_maxFrequency_def)
  have r: "getState s \<noteq> SCANNING \<Longrightarrow> radio ?s' = fm_start 90 (radio s)"
    by (simp add: radio_switchToFrequency t start_def getState_def)
  have g: "getState s \<noteq> SCANNING \<Longrightarrow> getFrequency ?s' = 90"
    using r by (simp add: getFrequency_def fm_start_def Math_round_def)
  have g3: "getState s \<noteq> SCANNING \<Longrightarrow> getFrequency (start 90 ?s3) = 90"
    by (simp add: getFrequency_def start_def getState_def fm_start_def Math_round_def)
  have p: "getState s \<noteq> SCANNING \<Longrightarrow>
          getState ?s' = PLAYING \<and> fm_frequency (radio ?s') = 90 \<and> getFrequency ?s' = 90
          \<and> getLastFrequency (stations ?s') = 90"
    using r g g3
    by (simp add: getState_def fm_start_def getLastFrequency_def stations_switchToFrequency t)
  show ?thesis
    using e l c p onFinished_loop_three [of 90 "955 / 10" "1012 / 10" "stations s"] by blast
qed

theorem onFinished_three_frequencies_witness:
  "getStationList (stations after_scan) = []
   \<and> getState after_scan \<noteq> SCANNING
   \<and> (\<exists>s'. onFinished [90, 955 / 10, 1012 / 10] after_scan = Inr s'
         \<and> getStationList (stations s') =
             [\<lparr>name = ''Station 1'', frequency = 90\<rparr>,
              \<lparr>name = ''Station 2'', frequency = 955 / 10\<rparr>,
              \<lparr>name = ''Station 3'', frequency = 1012 / 10\<rparr>]
         \<and> getState s' = PLAYING \<and> getFrequency s' = 90)"
  using onFinished_three_frequencies [OF after_scan_empty] after_scan_empty after_scan_idle by auto

subsection \<open>The rounded frequency\<close>

lemma getFrequency_eq_round:
  "getFrequency s = real_of_int (round (fm_frequency (radio s) * 10)) / 10"
  by (simp add: getFrequency_def Math_round_def round_def)

lemma getFrequency_nearest:
  "\<bar>getFrequency s - fm_frequency (radio s)\<bar> \<le> \<bar>real_of_int k / 10 - fm_frequency (radio s)\<bar>"
proof -
  have "\<bar>fm_frequency (radio s) * 10 - real_of_int (round (fm_frequency (radio s) * 10))\<bar>
        \<le> \<bar>fm_frequency (radio s) * 10 - real_of_int k\<bar>"
    by (rule round_diff_minimal)
  then show ?thesis by (simp add: getFrequency_eq_round field_simps)
qed

lemma frequencyBeforeScan_scanStart:
  "frequencyBeforeScan (scanStart s) = getFrequency s"
  by (simp add: scanStart_def Let_def getFrequency_def fm_stop_def fm_scanStart_def)

lemma off_grid_getFrequency: "getFrequency off_grid = 95"
  by (simp add: off_grid_def getFrequency_def Math_round_def)

text \<open>
  C10. \<^verbatim>\<open>getFrequency()\<close> is the device frequency rounded to the nearest multiple of 0.1,
  computed as \<open>round (f * 10) / 10\<close>. This rounded value is the restore point that
  \<^verbatim>\<open>scanStart\<close> records, the last frequency that \<^verbatim>\<open>refreshStation\<close> stores and persists, and
  the frequency at which playback is started again after an interruption or when the
  antenna is connected.
\<close>

theorem getFrequency_rounded:
  "getFrequency s = real_of_int (round (fm_frequency (radio s) * 10)) / 10
   \<and> (\<forall>k::int. \<bar>getFrequency s - fm_frequency (radio s)\<bar>
                  \<le> \<bar>real_of_int k / 10 - fm_frequency (radio s)\<bar>)
   \<and> frequencyBeforeScan (scanStart s) = getFrequency s
   \<and> getLastFrequency (stations (refreshStation s)) = getFrequency s
   \<and> idb (stations (refreshStation s)) ''lastFrequency'' = Some (Number (getFrequency s))
   \<and> (getState s \<noteq> SCANNING \<longrightarrow>
        fm_calls (radio (onInterruptedFinish s)) = fm_calls (radio s) @ [CallStart (getFrequency s)]
        \<and> fm_calls (radio (onChangeAntennaConnectionListener True s))
            = fm_calls (radio s) @ [CallStart (getFrequency s)])"
  using getFrequency_eq_round [of s] getFrequency_nearest [of s] frequencyBeforeScan_scanStart [of s]
  by (simp add: stations_refreshStation getLastFrequency_def onInterruptedFinish_def
      onChangeAntennaConnectionListener_def start_def getState_def fm_start_def)

theorem getFrequency_rounded_witness:
  "getState off_grid \<noteq> SCANNING
   \<and> fm_frequency (radio off_grid) = 9504 / 100
   \<and> getFrequency off_grid = 95
   \<and> frequencyBeforeScan (scanStart off_grid) = 95
   \<and> getLastFrequency (stations (refreshStation off_grid)) = 95
   \<and> fm_calls (radio (onInterruptedFinish off_grid)) = [CallStart 95]
   \<and> fm_calls (radio (onChangeAntennaConnectionListener True off_grid)) = [CallStart 95]"
proof -
  have i: "getState off_grid \<noteq> SCANNING"
    by (simp add: getState_def off_grid_def device0_def)
  have f: "fm_frequency (radio off_grid) = 9504 / 100"
    by (simp add: off_grid_def)
  have c: "fm_calls (radio off_grid) = []"
    by (simp add: off_grid_def device0_def)
  show ?thesis
    using getFrequency_rounded [of off_grid] i f c off_grid_getFrequency by simp
qed

end
